theory Spec2Isabelle
  imports Complex_Main "HOL-Library.Sublist" "HOL-Library.Multiset"
begin

section \<open>Supply chain risk scoring, aggregation and recommendations\<close>

text \<open>
  A shallow embedding of the risk scoring pipeline of the supply chain predictor:
  \<^verbatim>\<open>utils/helpers.py\<close>, \<^verbatim>\<open>config.py\<close>, \<^verbatim>\<open>models/risk_scorer.py\<close>,
  \<^verbatim>\<open>RiskAnalyzer.aggregate_risks\<close>, \<^verbatim>\<open>ForecastService.generate_recommendations\<close> and
  \<^verbatim>\<open>MitigationService._generate_fallback_mitigations\<close>.

  Python's \<^verbatim>\<open>float\<close> and \<^verbatim>\<open>int\<close> values are both embedded in \<^typ>\<open>real\<close> (exact
  arithmetic: rounding error, infinities and NaN of IEEE doubles are outside the model).
  Every \<^verbatim>\<open>raise\<close> the modelled code can reach is a value \<open>Inl e\<close> of the result type.
  A parameter with a default value in the source is an ordinary argument here, and local
  variables whose source names are also keys of a result dictionary are renamed
  (\<open>prob\<close>, \<open>impact_sev\<close>, \<open>urg\<close>, \<open>prio\<close>, \<open>detected\<close>).
\<close>

subsection \<open>Errors and Python primitives\<close>

datatype error = KeyError | ZeroDivisionError

text \<open>Sequencing of fallible computations: the first exception ends the computation.\<close>

definition bind_res :: "error + 'a \<Rightarrow> ('a \<Rightarrow> error + 'b) \<Rightarrow> error + 'b" where
  "bind_res m f = (case m of Inl e \<Rightarrow> Inl e | Inr v \<Rightarrow> f v)"

text \<open>Python's \<^verbatim>\<open>a / b\<close> on numbers raises \<^verbatim>\<open>ZeroDivisionError\<close> when \<^verbatim>\<open>b == 0\<close>.\<close>

definition py_div :: "real \<Rightarrow> real \<Rightarrow> error + real" where
  "py_div a b = (if b = 0 then Inl ZeroDivisionError else Inr (a / b))"

text \<open>\<^verbatim>\<open>d[k]\<close> raises \<^verbatim>\<open>KeyError\<close> on a missing key; \<^verbatim>\<open>d.get(k, default)\<close> does not.\<close>

definition dict_index :: "(string \<times> 'v) list \<Rightarrow> string \<Rightarrow> error + 'v" where
  "dict_index d k = (case map_of d k of None \<Rightarrow> Inl KeyError | Some v \<Rightarrow> Inr v)"

definition dict_get :: "(string \<times> 'v) list \<Rightarrow> string \<Rightarrow> 'v \<Rightarrow> 'v" where
  "dict_get d k dflt = (case map_of d k of None \<Rightarrow> dflt | Some v \<Rightarrow> v)"

text \<open>
  Python's \<^verbatim>\<open>round(x, 2)\<close> on a number: the nearest multiple of \<open>1/100\<close>, a tie going
  to the even multiple.
\<close>

definition round_half_even :: "real \<Rightarrow> int" where
  "round_half_even x =
     (let f = \<lfloor>x\<rfloor>; d = x - of_int f
      in if d < 1 / 2 then f
         else if 1 / 2 < d then f + 1
         else if even f then f else f + 1)"

definition py_round :: "real \<Rightarrow> nat \<Rightarrow> real" where
  "py_round x ndigits = of_int (round_half_even (x * 10 ^ ndigits)) / 10 ^ ndigits"

subsection \<open>config.py\<close>

definition RISK_THRESHOLDS :: "(string \<times> real) list" where
  "RISK_THRESHOLDS =
     [(''supplier_lead_time_multiplier'', 1.2),
      (''capacity_utilization_threshold'', 0.95),
      (''downtime_increase_threshold'', 0.2),
      (''safety_stock_threshold'', 1.0),
      (''demand_volatility_threshold'', 0.3),
      (''transit_time_multiplier'', 1.3),
      (''weather_severity_threshold'', 7),
      (''tariff_increase_threshold'', 0.1),
      (''port_congestion_threshold'', 30)]"

definition RISK_PRIORITY_THRESHOLDS :: "(string \<times> real) list" where
  "RISK_PRIORITY_THRESHOLDS =
     [(''CRITICAL'', 90), (''HIGH'', 70), (''MEDIUM'', 50), (''LOW'', 0)]"

subsection \<open>utils/helpers.py\<close>

definition classify_risk_priority :: "real \<Rightarrow> error + string" where
  "classify_risk_priority risk_score =
     bind_res (dict_index RISK_PRIORITY_THRESHOLDS ''CRITICAL'') (\<lambda>critical.
       if risk_score \<ge> critical then Inr ''CRITICAL''
       else bind_res (dict_index RISK_PRIORITY_THRESHOLDS ''HIGH'') (\<lambda>high.
         if risk_score \<ge> high then Inr ''HIGH''
         else bind_res (dict_index RISK_PRIORITY_THRESHOLDS ''MEDIUM'') (\<lambda>medium.
           if risk_score \<ge> medium then Inr ''MEDIUM''
           else Inr ''LOW'')))"

definition safe_division :: "real \<Rightarrow> real \<Rightarrow> real \<Rightarrow> real" where
  "safe_division numerator denominator dflt =
     (if denominator = 0 then dflt else numerator / denominator)"

definition clamp :: "real \<Rightarrow> real \<Rightarrow> real \<Rightarrow> real" where
  "clamp v min_val max_val = max min_val (min v max_val)"

subsection \<open>models/risk_scorer.py: the composite score\<close>

definition calculate_composite_score :: "real \<Rightarrow> real \<Rightarrow> real \<Rightarrow> real \<Rightarrow> error + real" where
  "calculate_composite_score impact_severity0 probability0 urgency0 mitigation_readiness0 =
     (let impact_severity = clamp impact_severity0 0 100;
          probability = clamp probability0 0 1;
          urgency = clamp urgency0 0 100;
          mitigation_readiness = clamp mitigation_readiness0 0.1 1.0;
          raw_score = (impact_severity * 0.4) + (probability * 100 * 0.3) + (urgency * 0.3)
      in bind_res (py_div raw_score mitigation_readiness) (\<lambda>adjusted_score.
           Inr (clamp adjusted_score 0 100)))"

subsection \<open>models/risk_scorer.py: the result of a score function\<close>

text \<open>
  A score function returns a dictionary. Its keys \<^verbatim>\<open>risk_detected\<close>, \<^verbatim>\<open>risk_score\<close>,
  \<^verbatim>\<open>priority\<close>, \<^verbatim>\<open>probability\<close> and \<^verbatim>\<open>impact_severity\<close> are always present and are
  the fields of the record; \<^verbatim>\<open>urgency\<close> is present in a detected result only; the remaining,
  domain-specific keys are kept in \<open>details\<close> in the order the source writes them.
\<close>

datatype pyval = PNum real | PBool bool | PStr string | PDict "(string \<times> pyval) list"

record score_result =
  risk_detected :: bool
  risk_score :: real
  priority :: string
  probability :: real
  impact_severity :: real
  urgency :: "real option"
  details :: "(string \<times> pyval) list"

text \<open>The dictionary every score function returns when its gate does not fire.\<close>

definition not_detected :: score_result where
  "not_detected =
     \<lparr>risk_detected = False, risk_score = 0, priority = ''LOW'', probability = 0,
      impact_severity = 0, urgency = None, details = []\<rparr>"

text \<open>The tail shared by the six functions: composite score, priority, rounded fields.\<close>

definition detected_result ::
  "real \<Rightarrow> real \<Rightarrow> real \<Rightarrow> real \<Rightarrow> (string \<times> pyval) list \<Rightarrow> error + score_result" where
  "detected_result impact_sev prob urg mitigation_readiness extra =
     bind_res (calculate_composite_score impact_sev prob urg mitigation_readiness) (\<lambda>score.
     bind_res (classify_risk_priority score) (\<lambda>prio.
       Inr \<lparr>risk_detected = True, risk_score = py_round score 2, priority = prio,
            probability = py_round prob 2, impact_severity = py_round impact_sev 2,
            urgency = Some (py_round urg 2), details = extra\<rparr>))"

subsection \<open>models/risk_scorer.py: the six domain score functions\<close>

definition calculate_supplier_risk_score ::
  "real \<Rightarrow> real \<Rightarrow> real \<Rightarrow> int \<Rightarrow> real \<Rightarrow> error + score_result" where
  "calculate_supplier_risk_score forecasted_lead_time historical_avg_lead_time
       confidence_interval_width timeline_days on_time_delivery_rate =
     (let threshold_multiplier = dict_get RISK_THRESHOLDS ''supplier_lead_time_multiplier'' 1.2;
          increase_ratio = safe_division forecasted_lead_time historical_avg_lead_time 1.0;
          detected = (increase_ratio > threshold_multiplier)
      in if \<not> detected then Inr not_detected
         else bind_res (py_div confidence_interval_width forecasted_lead_time) (\<lambda>ci_ratio.
           let base_probability = 0.5 + (0.5 * (1 - min ci_ratio 1));
               prob = clamp (base_probability * (1 + (1 - on_time_delivery_rate))) 0 1;
               impact_sev = min ((increase_ratio - 1) * 100 * 2) 100;
               urg = max (100 - of_int timeline_days) 0;
               mitigation_readiness = max on_time_delivery_rate 0.1
           in detected_result impact_sev prob urg mitigation_readiness
                [(''increase_ratio'', PNum (py_round increase_ratio 2)),
                 (''forecasted_metrics'', PDict
                    [(''lead_time_forecast'', PNum (py_round forecasted_lead_time 2)),
                     (''baseline_lead_time'', PNum (py_round historical_avg_lead_time 2)),
                     (''increase_percentage'', PNum (py_round ((increase_ratio - 1) * 100) 2))])]))"

definition calculate_production_risk_score ::
  "real \<Rightarrow> real \<Rightarrow> real \<Rightarrow> int \<Rightarrow> error + score_result" where
  "calculate_production_risk_score forecasted_utilization forecasted_downtime
       historical_downtime timeline_days =
     (let utilization_threshold = dict_get RISK_THRESHOLDS ''capacity_utilization_threshold'' 0.95;
          downtime_threshold = dict_get RISK_THRESHOLDS ''downtime_increase_threshold'' 0.2;
          bottleneck_risk = (forecasted_utilization > utilization_threshold);
          downtime_increase =
            safe_division (forecasted_downtime - historical_downtime) historical_downtime 0;
          downtime_risk = (downtime_increase > downtime_threshold)
      in if \<not> (bottleneck_risk \<or> downtime_risk) then Inr not_detected
         else
           bind_res (if bottleneck_risk
                     then bind_res (py_div (0.25 * (forecasted_utilization - utilization_threshold))
                                           (1 - utilization_threshold)) (\<lambda>q. Inr (0.5 + q))
                     else Inr 0.5) (\<lambda>prob1.
           let prob2 = (if downtime_risk then prob1 + 0.25 * min (downtime_increase / 0.5) 1
                        else prob1);
               prob = clamp prob2 0 1
           in bind_res (if bottleneck_risk
                        then bind_res (py_div (forecasted_utilization - utilization_threshold)
                                              (1 - utilization_threshold)) (\<lambda>q. Inr (0 + 50 * q))
                        else Inr 0) (\<lambda>impact1.
           let impact2 = (if downtime_risk then impact1 + 50 * min downtime_increase 1
                          else impact1);
               impact_sev = clamp impact2 0 100;
               urg = max (100 - of_int timeline_days) 0
           in detected_result impact_sev prob urg 0.7
                [(''bottleneck_risk'', PBool bottleneck_risk),
                 (''downtime_risk'', PBool downtime_risk),
                 (''forecasted_metrics'', PDict
                    [(''capacity_utilization'', PNum (py_round forecasted_utilization 4)),
                     (''downtime_hours'', PNum (py_round forecasted_downtime 2)),
                     (''downtime_increase_pct'', PNum (py_round (downtime_increase * 100) 2))])])))"

definition calculate_inventory_risk_score ::
  "real \<Rightarrow> real \<Rightarrow> real \<Rightarrow> real \<Rightarrow> int \<Rightarrow> error + score_result" where
  "calculate_inventory_risk_score forecasted_inventory safety_stock forecasted_demand_upper
       inventory_lower_bound timeline_days =
     (let shortage_risk = (forecasted_inventory < safety_stock);
          high_demand_risk = (forecasted_demand_upper > inventory_lower_bound)
      in if \<not> (shortage_risk \<or> high_demand_risk) then Inr not_detected
         else
           let prob1 = (if shortage_risk
                        then 0.3 + 0.4 * min (safe_division (safety_stock - forecasted_inventory)
                                                safety_stock 0) 1
                        else 0.3);
               prob2 = (if high_demand_risk
                        then prob1 + 0.3 * min (safe_division
                                                  (forecasted_demand_upper - inventory_lower_bound)
                                                  inventory_lower_bound 0) 1
                        else prob1);
               prob = clamp prob2 0 1;
               impact1 = (if shortage_risk
                          then 0 + 60 * min (safe_division (safety_stock - forecasted_inventory)
                                               safety_stock 0) 1
                          else 0);
               impact2 = (if high_demand_risk then impact1 + 40 else impact1);
               impact_sev = clamp impact2 0 100;
               urg = max (100 - of_int timeline_days) 0
           in detected_result impact_sev prob urg 0.6
                [(''shortage_risk'', PBool shortage_risk),
                 (''demand_exceeds_supply'', PBool high_demand_risk),
                 (''forecasted_metrics'', PDict
                    [(''forecasted_inventory'', PNum (py_round forecasted_inventory 2)),
                     (''safety_stock'', PNum (py_round safety_stock 2)),
                     (''inventory_gap'', PNum (py_round (safety_stock - forecasted_inventory) 2))])])"

definition calculate_demand_volatility_score ::
  "real \<Rightarrow> real \<Rightarrow> real \<Rightarrow> int \<Rightarrow> error + score_result" where
  "calculate_demand_volatility_score yhat yhat_upper yhat_lower timeline_days =
     (let threshold = dict_get RISK_THRESHOLDS ''demand_volatility_threshold'' 0.3;
          interval_width = yhat_upper - yhat_lower;
          volatility = safe_division interval_width yhat 0;
          detected = (volatility > threshold)
      in if \<not> detected then Inr not_detected
         else bind_res (py_div (volatility - threshold) threshold) (\<lambda>excess.
           let prob = min (excess + 0.5) 1;
               impact_sev = min (volatility * 100) 100;
               urg = max (100 - of_int timeline_days) 0
           in detected_result impact_sev prob urg 0.8
                [(''volatility'', PNum (py_round (volatility * 100) 2)),
                 (''forecasted_metrics'', PDict
                    [(''demand_forecast'', PNum (py_round yhat 2)),
                     (''upper_bound'', PNum (py_round yhat_upper 2)),
                     (''lower_bound'', PNum (py_round yhat_lower 2)),
                     (''volatility_percentage'', PNum (py_round (volatility * 100) 2))])]))"

definition calculate_transportation_risk_score ::
  "real \<Rightarrow> real \<Rightarrow> int \<Rightarrow> real \<Rightarrow> error + score_result" where
  "calculate_transportation_risk_score forecasted_transit_time baseline_transit_time
       timeline_days on_time_rate =
     (let threshold = dict_get RISK_THRESHOLDS ''transit_time_multiplier'' 1.3;
          increase_ratio = safe_division forecasted_transit_time baseline_transit_time 1.0;
          detected = (increase_ratio > threshold)
      in if \<not> detected then Inr not_detected
         else
           let prob = clamp (0.5 + 0.5 * (1 - on_time_rate)) 0 1;
               delay_pct = (increase_ratio - 1) * 100;
               impact_sev = min (delay_pct * 2) 100;
               urg = max (100 - of_int timeline_days) 0
           in detected_result impact_sev prob urg on_time_rate
                [(''forecasted_metrics'', PDict
                    [(''transit_time_forecast'', PNum (py_round forecasted_transit_time 2)),
                     (''baseline_transit_time'', PNum (py_round baseline_transit_time 2)),
                     (''delay_percentage'', PNum (py_round ((increase_ratio - 1) * 100) 2))])])"

text \<open>
  The \<^verbatim>\<open>if\<close>/\<^verbatim>\<open>elif\<close> chain of the external-factor function, which assigns
  \<^verbatim>\<open>risk_detected\<close>, \<^verbatim>\<open>probability\<close>, \<^verbatim>\<open>impact_severity\<close> and \<^verbatim>\<open>sub_category\<close>. The
  chain has no final \<^verbatim>\<open>else\<close>: any other factor type leaves the four initial values.
\<close>

definition external_factor_gate ::
  "string \<Rightarrow> real \<Rightarrow> real \<Rightarrow> bool \<times> real \<times> real \<times> string" where
  "external_factor_gate factor_type forecasted_value historical_value =
     (if factor_type = ''weather_severity_index'' then
        (let threshold = dict_get RISK_THRESHOLDS ''weather_severity_threshold'' 7;
             detected = (forecasted_value > threshold)
         in if detected
            then (True, min ((forecasted_value - threshold) / 3) 1,
                  min ((forecasted_value / 10) * 100) 100, ''Weather'')
            else (False, 0, 0, factor_type))
      else if factor_type = ''tariff_rate'' then
        (let threshold = dict_get RISK_THRESHOLDS ''tariff_increase_threshold'' 0.1;
             increase = safe_division (forecasted_value - historical_value) historical_value 0;
             detected = (increase > threshold)
         in if detected
            then (True, min (increase / 0.3) 1, min (increase * 200) 100, ''Trade/Tariffs'')
            else (False, 0, 0, factor_type))
      else if factor_type = ''port_congestion_index'' then
        (let threshold = dict_get RISK_THRESHOLDS ''port_congestion_threshold'' 30;
             detected = (forecasted_value > threshold)
         in if detected
            then (True, min ((forecasted_value - threshold) / 20) 1,
                  min ((forecasted_value / 50) * 100) 100, ''Port Congestion'')
            else (False, 0, 0, factor_type))
      else if factor_type = ''fuel_price_usd'' then
        (let increase = safe_division (forecasted_value - historical_value) historical_value 0;
             detected = (increase > 0.15)
         in if detected
            then (True, min (increase / 0.3) 1, min (increase * 150) 100, ''Fuel Costs'')
            else (False, 0, 0, factor_type))
      else if factor_type = ''geopolitical_risk_index'' then
        (let detected = (forecasted_value > 7)
         in if detected
            then (True, min (forecasted_value / 10) 1, min (forecasted_value * 10) 100,
                  ''Geopolitical'')
            else (False, 0, 0, factor_type))
      else (False, 0, 0, factor_type))"

definition calculate_external_factor_risk_score ::
  "string \<Rightarrow> real \<Rightarrow> real \<Rightarrow> int \<Rightarrow> error + score_result" where
  "calculate_external_factor_risk_score factor_type forecasted_value historical_value
       timeline_days =
     (case external_factor_gate factor_type forecasted_value historical_value of
        (detected, prob0, impact0, sub_category) \<Rightarrow>
          if \<not> detected then Inr not_detected
          else
            let prob = clamp prob0 0 1;
                impact_sev = clamp impact0 0 100;
                urg = max (100 - of_int timeline_days) 0
            in detected_result impact_sev prob urg 0.5
                 [(''sub_category'', PStr sub_category),
                  (''forecasted_metrics'', PDict
                     [(''forecasted_value'', PNum (py_round forecasted_value 2)),
                      (''historical_value'', PNum (py_round historical_value 2)),
                      (''factor_type'', PStr factor_type)])])"

text \<open>The ranges the spec gives for the numeric fields of a score result.\<close>

definition scores_in_range :: "score_result \<Rightarrow> bool" where
  "scores_in_range r \<longleftrightarrow>
     0 \<le> risk_score r \<and> risk_score r \<le> 100 \<and>
     0 \<le> probability r \<and> probability r \<le> 1 \<and>
     0 \<le> impact_severity r \<and> impact_severity r \<le> 100"

subsection \<open>Risk items\<close>

text \<open>
  A risk is a dictionary \<^verbatim>\<open>Dict[str, Any]\<close>. The aggregator, the recommendation generator and
  the fallback mitigation generator read six of its keys, each with \<^verbatim>\<open>risk.get(key, default)\<close>;
  a field is \<open>None\<close> when the key is absent. The fields carry the prefix \<open>item_\<close> because
  a score result has keys of the same names. All other keys of a risk are the extension
  part of the record.
\<close>

record risk =
  item_risk_id :: "string option"
  item_category :: "string option"
  item_priority :: "string option"
  item_risk_score :: "real option"
  item_timeline_days :: "int option"
  item_impact :: "string option"

definition get_risk_score :: "'a risk_scheme \<Rightarrow> real" where
  \<comment> \<open>\<^verbatim>\<open>r.get("risk_score", 0)\<close>\<close>
  "get_risk_score r = (case item_risk_score r of None \<Rightarrow> 0 | Some s \<Rightarrow> s)"

definition get_priority :: "'a risk_scheme \<Rightarrow> string" where
  \<comment> \<open>\<^verbatim>\<open>risk.get("priority", "MEDIUM")\<close>\<close>
  "get_priority r = (case item_priority r of None \<Rightarrow> ''MEDIUM'' | Some p \<Rightarrow> p)"

definition get_timeline_days :: "'a risk_scheme \<Rightarrow> int" where
  \<comment> \<open>\<^verbatim>\<open>risk.get("timeline_days", 30)\<close>\<close>
  "get_timeline_days r = (case item_timeline_days r of None \<Rightarrow> 30 | Some t \<Rightarrow> t)"

definition get_category :: "'a risk_scheme \<Rightarrow> string" where
  \<comment> \<open>\<^verbatim>\<open>risk.get("category", "")\<close>\<close>
  "get_category r = (case item_category r of None \<Rightarrow> [] | Some c \<Rightarrow> c)"

definition get_impact :: "'a risk_scheme \<Rightarrow> string" where
  \<comment> \<open>\<^verbatim>\<open>risk.get('impact', 'Risk identified')\<close>\<close>
  "get_impact r = (case item_impact r of None \<Rightarrow> ''Risk identified'' | Some i \<Rightarrow> i)"

subsection \<open>services/risk_analyzer.py: aggregate_risks\<close>

text \<open>
  \<^verbatim>\<open>xs.sort(key=f, reverse=True)\<close>: Python's sort is stable, also with \<^verbatim>\<open>reverse=True\<close>
  (elements with equal keys keep their order). On numeric keys this is the stable
  ascending sort on the negated key.
\<close>

definition sort_reverse :: "('a \<Rightarrow> real) \<Rightarrow> 'a list \<Rightarrow> 'a list" where
  "sort_reverse f xs = sort_key (\<lambda>x. - f x) xs"

definition aggregate_risks :: "'a risk_scheme list \<Rightarrow> real \<Rightarrow> 'a risk_scheme list" where
  "aggregate_risks all_risks risk_threshold =
     (let filtered = filter (\<lambda>r. get_risk_score r \<ge> risk_threshold) all_risks
      in sort_reverse (\<lambda>x. get_risk_score x) filtered)"

subsection \<open>services/forecast_service.py: generate_recommendations\<close>

record recommendation =
  action :: string
  rec_priority :: string
  related_risks :: "string option list"

record recommendations =
  immediate_actions :: "recommendation list"
  short_term_actions :: "recommendation list"
  long_term_actions :: "recommendation list"

text \<open>The three dictionary literals the loop appends.\<close>

definition immediate_action :: "'a risk_scheme \<Rightarrow> recommendation" where
  "immediate_action r =
     \<lparr>action = ''Address '' @ get_category r @ '': '' @ get_impact r,
      rec_priority = get_priority r, related_risks = [item_risk_id r]\<rparr>"

definition short_term_action :: "'a risk_scheme \<Rightarrow> recommendation" where
  "short_term_action r =
     \<lparr>action = ''Monitor and plan for '' @ get_category r,
      rec_priority = get_priority r, related_risks = [item_risk_id r]\<rparr>"

definition long_term_action :: "'a risk_scheme \<Rightarrow> recommendation" where
  "long_term_action r =
     \<lparr>action = ''Prepare contingency for '' @ get_category r,
      rec_priority = get_priority r, related_risks = [item_risk_id r]\<rparr>"

text \<open>One iteration of the \<^verbatim>\<open>for risk in risks\<close> loop, on the dictionary of buckets.\<close>

definition recommend_step :: "recommendations \<Rightarrow> 'a risk_scheme \<Rightarrow> recommendations" where
  "recommend_step recs r =
     (let prio = get_priority r; timeline = get_timeline_days r
      in if prio = ''CRITICAL'' \<or> timeline \<le> 7
         then recs\<lparr>immediate_actions := immediate_actions recs @ [immediate_action r]\<rparr>
         else if prio = ''HIGH'' \<or> timeline \<le> 21
         then recs\<lparr>short_term_actions := short_term_actions recs @ [short_term_action r]\<rparr>
         else recs\<lparr>long_term_actions := long_term_actions recs @ [long_term_action r]\<rparr>)"

text \<open>The buckets when the loop has ended, before they are cut.\<close>

definition bucket_risks :: "'a risk_scheme list \<Rightarrow> recommendations" where
  "bucket_risks risks =
     foldl recommend_step
       \<lparr>immediate_actions = [], short_term_actions = [], long_term_actions = []\<rparr> risks"

definition generate_recommendations :: "'a risk_scheme list \<Rightarrow> recommendations" where
  "generate_recommendations risks =
     (let recs = bucket_risks risks
      in \<lparr>immediate_actions = take 5 (immediate_actions recs),
          short_term_actions = take 5 (short_term_actions recs),
          long_term_actions = take 5 (long_term_actions recs)\<rparr>)"

subsection \<open>services/mitigation_service.py: the fallback mitigation table\<close>

record strategy =
  strategy_name :: string
  action_steps :: "string list"
  timeline_days :: int
  estimated_cost :: real
  risk_reduction :: int
  dependencies :: "string list"
  pros :: "string list"
  cons :: "string list"

text \<open>
  \<^verbatim>\<open>{"CRITICAL": 2.0, "HIGH": 1.5, "MEDIUM": 1.0, "LOW": 0.5}.get(priority, 1.0)\<close>
\<close>

definition cost_multiplier_of :: "string \<Rightarrow> real" where
  "cost_multiplier_of prio =
     dict_get [(''CRITICAL'', 2.0), (''HIGH'', 1.5), (''MEDIUM'', 1.0), (''LOW'', 0.5)] prio 1.0"

text \<open>
  The \<^verbatim>\<open>if\<close>/\<^verbatim>\<open>elif\<close> chain on the category, with the local variable
  \<^verbatim>\<open>cost_multiplier\<close> as a parameter. \<^verbatim>\<open>"Supplier" in category\<close> is the substring test.
\<close>

definition fallback_strategies :: "string \<Rightarrow> real \<Rightarrow> strategy list" where
  "fallback_strategies category cost_multiplier =
     (if sublist ''Supplier'' category then
        [
         \<lparr>strategy_name = ''Activate Backup Supplier'',
           action_steps =
              [''Identify and contact qualified backup suppliers'',
               ''Request expedited quotes and capacity confirmation'',
               ''Negotiate emergency supply agreements'',
               ''Place initial trial orders to verify quality'',
               ''Establish regular communication channels''],
           timeline_days = 5,
           estimated_cost = 45000 * cost_multiplier,
           risk_reduction = 60,
           dependencies = [''Pre-qualified supplier list'', ''Budget approval''],
           pros = [''Immediate capacity increase'', ''Supply diversification''],
           cons = [''Higher unit costs'', ''Quality verification needed'']\<rparr>,
         \<lparr>strategy_name = ''Build Safety Stock Buffer'',
           action_steps =
              [''Calculate optimal safety stock levels'',
               ''Place expedited orders with current supplier'',
               ''Arrange additional warehouse capacity'',
               ''Implement inventory monitoring system''],
           timeline_days = 14,
           estimated_cost = 75000 * cost_multiplier,
           risk_reduction = 40,
           dependencies = [''Warehouse capacity'', ''Working capital''],
           pros = [''Buffers against future delays'', ''No supplier change''],
           cons = [''Increased inventory costs'', ''Capital tied up'']\<rparr>,
         \<lparr>strategy_name = ''Negotiate Priority Allocation'',
           action_steps =
              [''Schedule meeting with supplier management'',
               ''Present volume commitment projections'',
               ''Negotiate priority production slots'',
               ''Document agreements in contract amendment''],
           timeline_days = 7,
           estimated_cost = 15000 * cost_multiplier,
           risk_reduction = 30,
           dependencies = [''Supplier relationship'', ''Volume commitment''],
           pros = [''Maintains partnership'', ''Lower cost option''],
           cons = [''Dependent on supplier'', ''May not guarantee delivery'']\<rparr>]
      else if sublist ''Production'' category then
        [
         \<lparr>strategy_name = ''Implement Overtime Production'',
           action_steps =
              [''Assess equipment capacity for extended runs'',
               ''Schedule additional shifts'',
               ''Coordinate with workforce management'',
               ''Monitor equipment stress levels''],
           timeline_days = 3,
           estimated_cost = 35000 * cost_multiplier,
           risk_reduction = 45,
           dependencies = [''Labor availability'', ''Equipment condition''],
           pros = [''Quick implementation'', ''Uses existing assets''],
           cons = [''Higher labor costs'', ''Worker fatigue risk'']\<rparr>,
         \<lparr>strategy_name = ''Outsource to Contract Manufacturer'',
           action_steps =
              [''Identify qualified contract manufacturers'',
               ''Share product specifications'',
               ''Conduct quality audits'',
               ''Transfer production batch''],
           timeline_days = 21,
           estimated_cost = 120000 * cost_multiplier,
           risk_reduction = 55,
           dependencies = [''CM availability'', ''Quality certification''],
           pros = [''Adds capacity'', ''Maintains delivery''],
           cons = [''Higher costs'', ''Quality control challenges'']\<rparr>]
      else if sublist ''Stock'' category \<or> sublist ''Inventory'' category then
        [
         \<lparr>strategy_name = ''Expedite Inbound Shipments'',
           action_steps =
              [''Identify in-transit inventory'',
               ''Upgrade to air freight where possible'',
               ''Coordinate with carriers for priority handling'',
               ''Track shipments in real-time''],
           timeline_days = 2,
           estimated_cost = 25000 * cost_multiplier,
           risk_reduction = 35,
           dependencies = [''Carrier capacity'', ''Budget approval''],
           pros = [''Fast impact'', ''Immediate stock boost''],
           cons = [''High shipping costs'', ''Limited volume'']\<rparr>,
         \<lparr>strategy_name = ''Implement Demand Prioritization'',
           action_steps =
              [''Segment customers by priority/value'',
               ''Allocate available inventory to key accounts'',
               ''Communicate proactively with affected customers'',
               ''Offer alternatives or future delivery dates''],
           timeline_days = 1,
           estimated_cost = 5000 * cost_multiplier,
           risk_reduction = 25,
           dependencies = [''Customer segmentation data''],
           pros = [''Protects key relationships'', ''Low cost''],
           cons = [''Some customers impacted'', ''Revenue deferral'']\<rparr>]
      else if sublist ''Transportation'' category then
        [
         \<lparr>strategy_name = ''Use Alternative Carriers'',
           action_steps =
              [''Contact backup carrier network'',
               ''Negotiate spot rates'',
               ''Reroute affected shipments'',
               ''Monitor delivery performance''],
           timeline_days = 2,
           estimated_cost = 20000 * cost_multiplier,
           risk_reduction = 50,
           dependencies = [''Carrier availability''],
           pros = [''Maintains delivery schedule'', ''Flexible''],
           cons = [''Premium rates'', ''Coordination overhead'']\<rparr>,
         \<lparr>strategy_name = ''Switch Transportation Mode'',
           action_steps =
              [''Evaluate air vs. ground vs. rail options'',
               ''Calculate cost-benefit of mode switch'',
               ''Book alternative transport'',
               ''Update tracking systems''],
           timeline_days = 3,
           estimated_cost = 40000 * cost_multiplier,
           risk_reduction = 45,
           dependencies = [''Mode availability'', ''Cost approval''],
           pros = [''Can significantly speed delivery''],
           cons = [''Higher costs'', ''May not suit all products'']\<rparr>]
      else
        [
         \<lparr>strategy_name = ''Activate Contingency Plan'',
           action_steps =
              [''Review existing contingency procedures'',
               ''Brief relevant teams'',
               ''Implement pre-planned mitigation steps'',
               ''Monitor situation closely''],
           timeline_days = 1,
           estimated_cost = 10000 * cost_multiplier,
           risk_reduction = 30,
           dependencies = [''Documented contingency plan''],
           pros = [''Rapid response'', ''Pre-approved actions''],
           cons = [''May not cover all scenarios'']\<rparr>,
         \<lparr>strategy_name = ''Increase Monitoring and Communication'',
           action_steps =
              [''Set up enhanced monitoring for affected areas'',
               ''Establish daily status calls with stakeholders'',
               ''Create situation dashboard'',
               ''Prepare communication templates''],
           timeline_days = 1,
           estimated_cost = 5000 * cost_multiplier,
           risk_reduction = 20,
           dependencies = [''Communication tools''],
           pros = [''Early warning of changes'', ''Stakeholder alignment''],
           cons = [''Reactive approach'', ''Time investment'']\<rparr>,
         \<lparr>strategy_name = ''Hedge Risk Exposure'',
           action_steps =
              [''Analyze exposure to specific risk factor'',
               ''Explore financial hedging options'',
               ''Implement contractual protections'',
               ''Diversify where possible''],
           timeline_days = 14,
           estimated_cost = 30000 * cost_multiplier,
           risk_reduction = 35,
           dependencies = [''Financial team involvement'', ''Market instruments''],
           pros = [''Reduces financial impact'', ''Long-term protection''],
           cons = [''Complexity'', ''Upfront costs'']\<rparr>])"

definition generate_fallback_mitigations :: "'a risk_scheme \<Rightarrow> strategy list" where
  "generate_fallback_mitigations r =
     (let category = get_category r;
          prio = get_priority r;
          cost_multiplier = cost_multiplier_of prio
      in fallback_strategies category cost_multiplier)"

subsection \<open>The order of the priority labels\<close>

text \<open>
  The rank of a priority label in the order LOW, MEDIUM, HIGH, CRITICAL, used to state that
  the classification is monotone.
\<close>

definition priority_rank :: "string \<Rightarrow> nat" where
  "priority_rank p =
     (if p = ''CRITICAL'' then 3 else if p = ''HIGH'' then 2 else if p = ''MEDIUM'' then 1 else 0)"

section \<open>Properties\<close>

lemma dict_index_priority_thresholds:
  "dict_index RISK_PRIORITY_THRESHOLDS ''CRITICAL'' = Inr 90"
  "dict_index RISK_PRIORITY_THRESHOLDS ''HIGH'' = Inr 70"
  "dict_index RISK_PRIORITY_THRESHOLDS ''MEDIUM'' = Inr 50"
  "dict_index RISK_PRIORITY_THRESHOLDS ''LOW'' = Inr 0"
  by (simp_all add: dict_index_def RISK_PRIORITY_THRESHOLDS_def)

lemma classify_risk_priority_eq:
  "classify_risk_priority s =
     Inr (if 90 \<le> s then ''CRITICAL'' else if 70 \<le> s then ''HIGH''
          else if 50 \<le> s then ''MEDIUM'' else ''LOW'')"
  by (simp add: classify_risk_priority_def dict_index_priority_thresholds bind_res_def)

lemma clamp_bounds: "lo \<le> hi \<Longrightarrow> lo \<le> clamp v lo hi \<and> clamp v lo hi \<le> hi"
  by (simp add: clamp_def)

lemma clamp_id: "lo \<le> v \<Longrightarrow> v \<le> hi \<Longrightarrow> clamp v lo hi = v"
  by (simp add: clamp_def)

lemma calculate_composite_score_eq:
  "calculate_composite_score i p u m =
     Inr (clamp ((clamp i 0 100 * 0.4 + clamp p 0 1 * 100 * 0.3 + clamp u 0 100 * 0.3)
                   / clamp m 0.1 1.0) 0 100)"
proof -
  have "(1 / 10 :: real) \<le> clamp m 0.1 1.0"
    using clamp_bounds [of "0.1" "1.0" m] by simp
  then have "clamp m 0.1 1.0 \<noteq> 0" by auto
  then show ?thesis
    by (simp add: calculate_composite_score_def py_div_def bind_res_def Let_def)
qed

subsection \<open>Rounding stays within integer bounds\<close>

lemma round_half_even_lower: "of_int n \<le> x \<Longrightarrow> n \<le> round_half_even x"
proof -
  assume "of_int n \<le> x"
  then have "n \<le> \<lfloor>x\<rfloor>" by (simp add: le_floor_iff)
  then show ?thesis by (simp add: round_half_even_def Let_def)
qed

lemma round_half_even_upper: "x \<le> of_int n \<Longrightarrow> round_half_even x \<le> n"
proof -
  assume le: "x \<le> of_int n"
  then have fl: "\<lfloor>x\<rfloor> \<le> n" by (metis floor_of_int floor_mono)
  show ?thesis
  proof (cases "x - of_int \<lfloor>x\<rfloor> < 1 / 2")
    case True
    with fl show ?thesis by (simp add: round_half_even_def Let_def)
  next
    case False
    then have "of_int \<lfloor>x\<rfloor> < x" by linarith
    with le have "\<lfloor>x\<rfloor> < n" by linarith
    then show ?thesis by (simp add: round_half_even_def Let_def)
  qed
qed

lemma py_round_bounds:
  assumes "of_int a \<le> x" and "x \<le> of_int b"
  shows "of_int a \<le> py_round x 2 \<and> py_round x 2 \<le> of_int b"
proof -
  have "of_int (a * 100) \<le> x * 10 ^ 2" using assms(1) by simp
  then have lo: "a * 100 \<le> round_half_even (x * 10 ^ 2)" by (rule round_half_even_lower)
  have "x * 10 ^ 2 \<le> of_int (b * 100)" using assms(2) by simp
  then have hi: "round_half_even (x * 10 ^ 2) \<le> b * 100" by (rule round_half_even_upper)
  have "real_of_int (a * 100) \<le> of_int (round_half_even (x * 10 ^ 2))"
    using lo by (simp only: of_int_le_iff)
  moreover have "real_of_int (round_half_even (x * 10 ^ 2)) \<le> of_int (b * 100)"
    using hi by (simp only: of_int_le_iff)
  ultimately show ?thesis by (simp add: py_round_def)
qed

lemma py_round_unit: "0 \<le> x \<Longrightarrow> x \<le> 1 \<Longrightarrow> 0 \<le> py_round x 2 \<and> py_round x 2 \<le> 1"
  using py_round_bounds [of 0 x 1] by simp

lemma py_round_percent: "0 \<le> x \<Longrightarrow> x \<le> 100 \<Longrightarrow> 0 \<le> py_round x 2 \<and> py_round x 2 \<le> 100"
  using py_round_bounds [of 0 x 100] by simp

lemma composite_in_range:
  "\<exists>s. calculate_composite_score i p u m = Inr s \<and> 0 \<le> s \<and> s \<le> 100"
  using clamp_bounds [of 0 100] by (simp add: calculate_composite_score_eq)

lemma detected_result_ok:
  assumes "0 \<le> i" "i \<le> 100" "0 \<le> p" "p \<le> 1"
  shows "\<exists>r. detected_result i p u m extra = Inr r \<and> risk_detected r \<and> scores_in_range r"
proof -
  obtain s where s: "calculate_composite_score i p u m = Inr s" "0 \<le> s" "s \<le> 100"
    using composite_in_range by blast
  show ?thesis
    using py_round_percent [OF s(2,3)] py_round_percent [OF assms(1,2)]
      py_round_unit [OF assms(3,4)]
    by (simp add: detected_result_def s(1) classify_risk_priority_eq bind_res_def
        scores_in_range_def)
qed

lemma thresholds_get:
  "dict_get RISK_THRESHOLDS ''supplier_lead_time_multiplier'' d = 1.2"
  "dict_get RISK_THRESHOLDS ''capacity_utilization_threshold'' d = 0.95"
  "dict_get RISK_THRESHOLDS ''downtime_increase_threshold'' d = 0.2"
  "dict_get RISK_THRESHOLDS ''demand_volatility_threshold'' d = 0.3"
  "dict_get RISK_THRESHOLDS ''transit_time_multiplier'' d = 1.3"
  "dict_get RISK_THRESHOLDS ''weather_severity_threshold'' d = 7"
  "dict_get RISK_THRESHOLDS ''tariff_increase_threshold'' d = 0.1"
  "dict_get RISK_THRESHOLDS ''port_congestion_threshold'' d = 30"
  by (simp_all add: dict_get_def RISK_THRESHOLDS_def)

lemma supplier_cases:
  "calculate_supplier_risk_score f h c t ot = Inr not_detected \<or>
   (\<exists>r. calculate_supplier_risk_score f h c t ot = Inr r \<and> risk_detected r \<and> scores_in_range r)"
proof (cases "safe_division f h 1.0 > 1.2")
  case False
  then show ?thesis
    by (simp add: calculate_supplier_risk_score_def thresholds_get Let_def)
next
  case True
  then have f0: "f \<noteq> 0" by (auto simp: safe_division_def split: if_splits)
  have "0 \<le> min ((safe_division f h 1.0 - 1) * 100 * 2) 100" using True by simp
  then show ?thesis
    using True f0
      detected_result_ok [of "min ((safe_division f h 1.0 - 1) * 100 * 2) 100"
        "clamp ((0.5 + (0.5 * (1 - min (c / f) 1))) * (1 + (1 - ot))) 0 1"]
      clamp_bounds [of 0 1]
    by (simp add: calculate_supplier_risk_score_def thresholds_get Let_def py_div_def
        bind_res_def)
qed


lemma production_cases:
  "calculate_production_risk_score fu fdn hdn t = Inr not_detected \<or>
   (\<exists>r. calculate_production_risk_score fu fdn hdn t = Inr r \<and> risk_detected r \<and> scores_in_range r)"
proof (cases "fu > 0.95 \<or> safe_division (fdn - hdn) hdn 0 > 0.2")
  case False
  then show ?thesis
    by (simp add: calculate_production_risk_score_def thresholds_get Let_def)
next
  case True
  have ok: "\<And>i p extra. \<exists>r. detected_result (clamp i 0 100) (clamp p 0 1)
              (max (100 - of_int t) 0) 0.7 extra = Inr r \<and> risk_detected r \<and> scores_in_range r"
    using clamp_bounds [of 0 100] clamp_bounds [of 0 1] by (intro detected_result_ok) simp_all
  show ?thesis
    using True ok
    by (simp add: calculate_production_risk_score_def thresholds_get Let_def py_div_def
        bind_res_def)
qed

lemma inventory_cases:
  "calculate_inventory_risk_score fi ss du il t = Inr not_detected \<or>
   (\<exists>r. calculate_inventory_risk_score fi ss du il t = Inr r \<and> risk_detected r \<and> scores_in_range r)"
proof (cases "fi < ss \<or> du > il")
  case False
  then show ?thesis
    by (simp add: calculate_inventory_risk_score_def Let_def)
next
  case True
  have ok: "\<And>i p extra. \<exists>r. detected_result (clamp i 0 100) (clamp p 0 1)
              (max (100 - of_int t) 0) 0.6 extra = Inr r \<and> risk_detected r \<and> scores_in_range r"
    using clamp_bounds [of 0 100] clamp_bounds [of 0 1] by (intro detected_result_ok) simp_all
  show ?thesis
    using True ok
    by (simp add: calculate_inventory_risk_score_def Let_def)
qed

lemma demand_cases:
  "calculate_demand_volatility_score y yu yl t = Inr not_detected \<or>
   (\<exists>r. calculate_demand_volatility_score y yu yl t = Inr r \<and> risk_detected r \<and> scores_in_range r)"
proof (cases "safe_division (yu - yl) y 0 > 0.3")
  case False
  then show ?thesis
    by (simp add: calculate_demand_volatility_score_def thresholds_get Let_def)
next
  case True
  define v where "v = safe_division (yu - yl) y 0"
  have v: "v > 0.3" using True by (simp add: v_def)
  have "0 \<le> min (v * 100) 100" "min (v * 100) 100 \<le> 100"
       "0 \<le> min ((v - 0.3) / 0.3 + 0.5) 1" "min ((v - 0.3) / 0.3 + 0.5) 1 \<le> 1"
    using v by simp_all
  then have "\<And>extra. \<exists>r. detected_result (min (v * 100) 100) (min ((v - 0.3) / 0.3 + 0.5) 1)
              (max (100 - of_int t) 0) 0.8 extra = Inr r \<and> risk_detected r \<and> scores_in_range r"
    by (intro detected_result_ok)
  then show ?thesis
    using v
    by (simp add: calculate_demand_volatility_score_def thresholds_get Let_def py_div_def
        bind_res_def v_def [symmetric])
qed

lemma transportation_cases:
  "calculate_transportation_risk_score ft bt t ot = Inr not_detected \<or>
   (\<exists>r. calculate_transportation_risk_score ft bt t ot = Inr r \<and> risk_detected r \<and> scores_in_range r)"
proof (cases "safe_division ft bt 1 > 1.3")
  case False
  then show ?thesis
    by (simp add: calculate_transportation_risk_score_def thresholds_get Let_def)
next
  case True
  define q where "q = safe_division ft bt 1"
  have q: "q > 1.3" using True by (simp add: q_def)
  have "0 \<le> min ((q - 1) * 100 * 2) 100" "min ((q - 1) * 100 * 2) 100 \<le> 100"
    using q by simp_all
  then have "\<And>p extra. \<exists>r. detected_result (min ((q - 1) * 100 * 2) 100) (clamp p 0 1)
              (max (100 - of_int t) 0) ot extra = Inr r \<and> risk_detected r \<and> scores_in_range r"
    using clamp_bounds [of 0 1] by (intro detected_result_ok) simp_all
  then show ?thesis
    using q
    by (simp add: calculate_transportation_risk_score_def thresholds_get Let_def
        q_def [symmetric])
qed

lemma external_cases:
  "calculate_external_factor_risk_score ty fv hv t = Inr not_detected \<or>
   (\<exists>r. calculate_external_factor_risk_score ty fv hv t = Inr r \<and> risk_detected r \<and> scores_in_range r)"
proof -
  obtain d p i sc where g: "external_factor_gate ty fv hv = (d, p, i, sc)"
    by (cases "external_factor_gate ty fv hv") auto
  have ok: "\<And>extra. \<exists>r. detected_result (clamp i 0 100) (clamp p 0 1)
              (max (100 - of_int t) 0) 0.5 extra = Inr r \<and> risk_detected r \<and> scores_in_range r"
    using clamp_bounds [of 0 100] clamp_bounds [of 0 1] by (intro detected_result_ok) simp_all
  show ?thesis
    using ok by (simp add: calculate_external_factor_risk_score_def g Let_def)
qed

subsection \<open>The gate of a score function\<close>

lemma gate_closed:
  assumes "P = Inr not_detected \<or> (\<exists>r. P = Inr r \<and> risk_detected r \<and> scores_in_range r)"
  shows "\<forall>r. P = Inr r \<and> \<not> risk_detected r \<longrightarrow>
           risk_score r = 0 \<and> priority r = ''LOW'' \<and> r = not_detected"
  using assms by (auto simp: not_detected_def)

lemma not_detected_in_range: "scores_in_range not_detected"
  by (simp add: scores_in_range_def not_detected_def)

lemma total_in_range:
  assumes "P = Inr not_detected \<or> (\<exists>r. P = Inr r \<and> risk_detected r \<and> scores_in_range r)"
  shows "\<exists>r. P = Inr r \<and> scores_in_range r"
  using assms not_detected_in_range by auto

subsection \<open>Sorting, buckets and the fallback table\<close>

lemma mset_sort_reverse: "mset (sort_reverse f xs) = mset xs"
  by (simp add: sort_reverse_def)

lemma set_sort_reverse: "set (sort_reverse f xs) = set xs"
  by (simp add: sort_reverse_def)

lemma sorted_sort_reverse: "sorted_wrt (\<lambda>a b. f a \<ge> f b) (sort_reverse f xs)"
proof -
  have "sorted (map (\<lambda>x. - f x) (sort_key (\<lambda>x. - f x) xs))"
    by (rule sorted_sort_key)
  then show ?thesis
    by (simp add: sort_reverse_def sorted_map)
qed

lemma sort_reverse_stable:
  "filter (\<lambda>y. f y = k) (sort_reverse f xs) = filter (\<lambda>y. f y = k) xs"
proof -
  have "filter (\<lambda>y. - f y = - k) (sort_key (\<lambda>x. - f x) xs) = filter (\<lambda>y. - f y = - k) xs"
    by (rule sort_key_stable)
  then show ?thesis
    by (simp add: sort_reverse_def)
qed

lemma recommend_step_buckets:
  "immediate_actions (recommend_step recs r) =
     immediate_actions recs @
       map immediate_action
         (filter (\<lambda>r. get_priority r = ''CRITICAL'' \<or> get_timeline_days r \<le> 7) [r])"
  "short_term_actions (recommend_step recs r) =
     short_term_actions recs @
       map short_term_action
         (filter (\<lambda>r. \<not> (get_priority r = ''CRITICAL'' \<or> get_timeline_days r \<le> 7) \<and>
                      (get_priority r = ''HIGH'' \<or> get_timeline_days r \<le> 21)) [r])"
  "long_term_actions (recommend_step recs r) =
     long_term_actions recs @
       map long_term_action
         (filter (\<lambda>r. \<not> (get_priority r = ''CRITICAL'' \<or> get_timeline_days r \<le> 7) \<and>
                      \<not> (get_priority r = ''HIGH'' \<or> get_timeline_days r \<le> 21)) [r])"
  by (simp_all add: recommend_step_def Let_def)

lemma foldl_recommend_step:
  "foldl recommend_step recs risks =
     \<lparr>immediate_actions = immediate_actions recs @ map immediate_action
        (filter (\<lambda>r. get_priority r = ''CRITICAL'' \<or> get_timeline_days r \<le> 7) risks),
      short_term_actions = short_term_actions recs @ map short_term_action
        (filter (\<lambda>r. \<not> (get_priority r = ''CRITICAL'' \<or> get_timeline_days r \<le> 7) \<and>
                     (get_priority r = ''HIGH'' \<or> get_timeline_days r \<le> 21)) risks),
      long_term_actions = long_term_actions recs @ map long_term_action
        (filter (\<lambda>r. \<not> (get_priority r = ''CRITICAL'' \<or> get_timeline_days r \<le> 7) \<and>
                     \<not> (get_priority r = ''HIGH'' \<or> get_timeline_days r \<le> 21)) risks)\<rparr>"
proof (induction risks arbitrary: recs)
  case Nil
  show ?case by simp
next
  case (Cons r risks)
  show ?case
    unfolding foldl_Cons Cons.IH recommend_step_buckets by auto
qed

lemma three_way_split:
  "length (filter P xs) + length (filter (\<lambda>x. \<not> P x \<and> Q x) xs)
     + length (filter (\<lambda>x. \<not> P x \<and> \<not> Q x) xs) = length xs"
  by (induction xs) auto

lemma fallback_costs_scaled:
  "map estimated_cost (fallback_strategies c m) =
     map (\<lambda>s. estimated_cost s * m) (fallback_strategies c 1)"
  by (simp add: fallback_strategies_def)

lemma fallback_other_fields:
  "map (\<lambda>s. s\<lparr>estimated_cost := 0\<rparr>) (fallback_strategies c m) =
     map (\<lambda>s. s\<lparr>estimated_cost := 0\<rparr>) (fallback_strategies c 1)"
  by (simp add: fallback_strategies_def)

lemma cost_multiplier_table:
  "cost_multiplier_of ''CRITICAL'' = 2.0" "cost_multiplier_of ''HIGH'' = 1.5"
  "cost_multiplier_of ''MEDIUM'' = 1.0" "cost_multiplier_of ''LOW'' = 0.5"
  by (simp_all add: cost_multiplier_of_def dict_get_def)

section \<open>The claims\<close>

text \<open>
  Claim C1. For impact severity in \<open>[0,100]\<close>, probability in \<open>[0,1]\<close>, urgency in
  \<open>[0,100]\<close> and mitigation readiness in \<open>[0.1,1.0]\<close>, the composite score function
  returns (without raising) the quotient
  \<open>(impact*0.4 + probability*100*0.3 + urgency*0.3) / readiness\<close> clamped to \<open>[0,100]\<close>:
  the maximum of 0 and the minimum of the quotient and 100. The quotient is not negative
  on these inputs, so the score is 100 when the quotient exceeds 100 and the quotient
  itself otherwise.
\<close>

theorem composite_score_formula:
  assumes "0 \<le> i" and "i \<le> 100" and "0 \<le> p" and "p \<le> 1"
    and "0 \<le> u" and "u \<le> 100" and "0.1 \<le> m" and "m \<le> 1.0"
  shows "calculate_composite_score i p u m =
           Inr (max 0 (min ((i * 0.4 + p * 100 * 0.3 + u * 0.3) / m) 100)) \<and>
         calculate_composite_score i p u m =
           Inr (if 100 < (i * 0.4 + p * 100 * 0.3 + u * 0.3) / m then 100
                else (i * 0.4 + p * 100 * 0.3 + u * 0.3) / m)"
proof -
  define x where "x = (i * 0.4 + p * 100 * 0.3 + u * 0.3) / m"
  have "0 \<le> i * 0.4 + p * 100 * 0.3 + u * 0.3" using assms by simp
  moreover have "0 < m" using assms by simp
  ultimately have x0: "0 \<le> x" unfolding x_def by (rule divide_nonneg_pos)
  have eq: "calculate_composite_score i p u m = Inr (max 0 (min x 100))"
    using assms by (simp add: calculate_composite_score_eq clamp_id clamp_def x_def)
  have "max 0 (min x 100) = (if 100 < x then 100 else x)"
    using x0 by (simp add: max_def min_def)
  with eq show ?thesis unfolding x_def by simp
qed

theorem composite_score_formula_witness:
  "(0::real) \<le> 100 \<and> (100::real) \<le> 100 \<and> (0::real) \<le> 1 \<and> (1::real) \<le> 1 \<and>
   (0.1::real) \<le> 0.1 \<and> (0.1::real) \<le> 1.0 \<and>
   calculate_composite_score 100 1 100 0.1 = Inr 100 \<and>
   calculate_composite_score 50 0.5 60 0.5 = Inr 100 \<and>
   calculate_composite_score 50 0.5 60 0.8 = Inr 66.25 \<and>
   calculate_composite_score 0 0 0 1 = Inr 0"
  using composite_score_formula [of 100 1 100 "0.1"] composite_score_formula [of 50 "0.5" 60 "0.5"]
    composite_score_formula [of 50 "0.5" 60 "0.8"] composite_score_formula [of 0 0 0 1]
  by simp

text \<open>
  Claim C2. For each of the six domain score functions and every input: a returned result
  with \<open>risk_detected = False\<close> has \<open>risk_score = 0\<close> and \<open>priority = "LOW"\<close>. It is the
  fixed dictionary \<open>not_detected\<close>, which the function returns before it calls the
  composite score.
\<close>

theorem not_detected_zero_low:
  fixes timeline_days :: int
  shows
  "(\<forall>r. calculate_supplier_risk_score forecasted_lead_time historical_avg_lead_time
           confidence_interval_width timeline_days on_time_delivery_rate = Inr r \<and>
         \<not> risk_detected r \<longrightarrow>
         risk_score r = 0 \<and> priority r = ''LOW'' \<and> r = not_detected) \<and>
   (\<forall>r. calculate_production_risk_score forecasted_utilization forecasted_downtime
           historical_downtime timeline_days = Inr r \<and> \<not> risk_detected r \<longrightarrow>
         risk_score r = 0 \<and> priority r = ''LOW'' \<and> r = not_detected) \<and>
   (\<forall>r. calculate_inventory_risk_score forecasted_inventory safety_stock
           forecasted_demand_upper inventory_lower_bound timeline_days = Inr r \<and>
         \<not> risk_detected r \<longrightarrow>
         risk_score r = 0 \<and> priority r = ''LOW'' \<and> r = not_detected) \<and>
   (\<forall>r. calculate_demand_volatility_score yhat yhat_upper yhat_lower timeline_days = Inr r \<and>
         \<not> risk_detected r \<longrightarrow>
         risk_score r = 0 \<and> priority r = ''LOW'' \<and> r = not_detected) \<and>
   (\<forall>r. calculate_transportation_risk_score forecasted_transit_time baseline_transit_time
           timeline_days on_time_rate = Inr r \<and> \<not> risk_detected r \<longrightarrow>
         risk_score r = 0 \<and> priority r = ''LOW'' \<and> r = not_detected) \<and>
   (\<forall>r. calculate_external_factor_risk_score factor_type forecasted_value historical_value
           timeline_days = Inr r \<and> \<not> risk_detected r \<longrightarrow>
         risk_score r = 0 \<and> priority r = ''LOW'' \<and> r = not_detected)"
  by (intro conjI gate_closed supplier_cases production_cases inventory_cases demand_cases
      transportation_cases external_cases)

theorem not_detected_zero_low_witness:
  "calculate_supplier_risk_score 11 10 2 30 0.9 = Inr not_detected \<and>
   calculate_production_risk_score 0.9 5 5 30 = Inr not_detected \<and>
   calculate_inventory_risk_score 150 100 80 120 30 = Inr not_detected \<and>
   calculate_demand_volatility_score 100 110 90 30 = Inr not_detected \<and>
   calculate_transportation_risk_score 12 10 30 0.9 = Inr not_detected \<and>
   calculate_external_factor_risk_score ''weather_severity_index'' 5 4 30 = Inr not_detected \<and>
   \<not> risk_detected not_detected \<and> risk_score not_detected = 0 \<and>
   priority not_detected = ''LOW''"
  using not_detected_zero_low [of 11 10 2 30 "0.9" "0.9" 5 5 150 100 80 120 100 110 90 12 10 "0.9"
      "''weather_severity_index''" 5 4]
  by (simp add: calculate_supplier_risk_score_def calculate_production_risk_score_def
      calculate_inventory_risk_score_def calculate_demand_volatility_score_def
      calculate_transportation_risk_score_def calculate_external_factor_risk_score_def
      external_factor_gate_def thresholds_get safe_division_def Let_def not_detected_def)

text \<open>
  Claim C3. Each of the six domain score functions returns a result on every input (no
  exception is raised), and the result, detected or not, has \<open>risk_score\<close> in \<open>[0,100]\<close>,
  \<open>probability\<close> in \<open>[0,1]\<close> and \<open>impact_severity\<close> in \<open>[0,100]\<close>.
\<close>

theorem scores_within_ranges:
  fixes timeline_days :: int
  shows
  "(\<exists>r. calculate_supplier_risk_score forecasted_lead_time historical_avg_lead_time
           confidence_interval_width timeline_days on_time_delivery_rate = Inr r \<and>
         scores_in_range r) \<and>
   (\<exists>r. calculate_production_risk_score forecasted_utilization forecasted_downtime
           historical_downtime timeline_days = Inr r \<and> scores_in_range r) \<and>
   (\<exists>r. calculate_inventory_risk_score forecasted_inventory safety_stock
           forecasted_demand_upper inventory_lower_bound timeline_days = Inr r \<and>
         scores_in_range r) \<and>
   (\<exists>r. calculate_demand_volatility_score yhat yhat_upper yhat_lower timeline_days = Inr r \<and>
         scores_in_range r) \<and>
   (\<exists>r. calculate_transportation_risk_score forecasted_transit_time baseline_transit_time
           timeline_days on_time_rate = Inr r \<and> scores_in_range r) \<and>
   (\<exists>r. calculate_external_factor_risk_score factor_type forecasted_value historical_value
           timeline_days = Inr r \<and> scores_in_range r)"
  by (intro conjI total_in_range supplier_cases production_cases inventory_cases demand_cases
      transportation_cases external_cases)

theorem scores_within_ranges_witness:
  "(case calculate_supplier_risk_score 13 10 2 30 0.9 of
      Inl e \<Rightarrow> False
    | Inr r \<Rightarrow> risk_detected r \<and> risk_score r = 83.33 \<and> priority r = ''HIGH'' \<and>
               probability r = 1 \<and> impact_severity r = 60 \<and> scores_in_range r) \<and>
   (case calculate_inventory_risk_score 50 100 80 120 30 of
      Inl e \<Rightarrow> False
    | Inr r \<Rightarrow> risk_detected r \<and> risk_score r = 80 \<and> priority r = ''HIGH'' \<and>
               probability r = 0.5 \<and> impact_severity r = 30 \<and> scores_in_range r)"
  using scores_within_ranges [of 13 10 2 30 "0.9" 1 1 1 50 100 80 120 1 1 1 1 1 1 "[]" 1 1]
  by (simp add: calculate_supplier_risk_score_def calculate_inventory_risk_score_def
      detected_result_def calculate_composite_score_eq classify_risk_priority_eq bind_res_def
      py_div_def thresholds_get safe_division_def clamp_def Let_def py_round_def
      round_half_even_def scores_in_range_def)

text \<open>
  Claim C4. The priority classification maps a score \<open>\<ge> 90\<close> to CRITICAL, \<open>\<ge> 70\<close> to HIGH,
  \<open>\<ge> 50\<close> to MEDIUM and any other score to LOW, with the lower boundary of each class
  included. Each label is returned on exactly one interval, the four intervals cover every
  score without overlap, and a larger score never gets a lower priority.
\<close>

theorem classify_risk_priority_partition:
  "classify_risk_priority s =
     Inr (if s \<ge> 90 then ''CRITICAL'' else if s \<ge> 70 then ''HIGH''
          else if s \<ge> 50 then ''MEDIUM'' else ''LOW'') \<and>
   (classify_risk_priority s = Inr ''CRITICAL'' \<longleftrightarrow> 90 \<le> s) \<and>
   (classify_risk_priority s = Inr ''HIGH'' \<longleftrightarrow> 70 \<le> s \<and> s < 90) \<and>
   (classify_risk_priority s = Inr ''MEDIUM'' \<longleftrightarrow> 50 \<le> s \<and> s < 70) \<and>
   (classify_risk_priority s = Inr ''LOW'' \<longleftrightarrow> s < 50) \<and>
   (s \<le> t \<longrightarrow>
      (\<exists>p q. classify_risk_priority s = Inr p \<and> classify_risk_priority t = Inr q \<and>
             priority_rank p \<le> priority_rank q))"
  by (simp add: classify_risk_priority_eq priority_rank_def)

theorem classify_risk_priority_partition_witness:
  "(55::real) \<le> 95 \<and> classify_risk_priority 55 = Inr ''MEDIUM'' \<and>
   classify_risk_priority 95 = Inr ''CRITICAL'' \<and>
   priority_rank ''MEDIUM'' \<le> priority_rank ''CRITICAL'' \<and>
   classify_risk_priority 90 = Inr ''CRITICAL'' \<and> classify_risk_priority 89.99 = Inr ''HIGH'' \<and>
   classify_risk_priority 70 = Inr ''HIGH'' \<and> classify_risk_priority 50 = Inr ''MEDIUM'' \<and>
   classify_risk_priority 49.99 = Inr ''LOW'' \<and> classify_risk_priority 0 = Inr ''LOW''"
  using classify_risk_priority_partition [of 55 95]
  by (simp add: classify_risk_priority_eq priority_rank_def)

text \<open>
  Claim C5. For every list of risks and every threshold, \<open>aggregate_risks\<close> returns exactly
  the input risks whose risk score is at least the threshold (as a multiset), sorted
  non-increasing by risk score, and risks of equal score keep their relative input order.
  The risk score of a risk is \<open>r.get("risk_score", 0)\<close>, as in the source.
\<close>

theorem aggregate_risks_filtered_sorted_stable:
  "mset (aggregate_risks all_risks risk_threshold) =
     filter_mset (\<lambda>r. get_risk_score r \<ge> risk_threshold) (mset all_risks) \<and>
   sorted_wrt (\<lambda>a b. get_risk_score a \<ge> get_risk_score b)
     (aggregate_risks all_risks risk_threshold) \<and>
   (\<forall>k. filter (\<lambda>r. get_risk_score r = k) (aggregate_risks all_risks risk_threshold) =
        filter (\<lambda>r. get_risk_score r = k)
          (filter (\<lambda>r. get_risk_score r \<ge> risk_threshold) all_risks))"
  by (simp add: aggregate_risks_def mset_sort_reverse sorted_sort_reverse sort_reverse_stable)

theorem aggregate_risks_filtered_sorted_stable_witness:
  "aggregate_risks
     [\<lparr>item_risk_id = Some ''R-A'', item_category = Some ''Supplier Delay'',
       item_priority = Some ''MEDIUM'', item_risk_score = Some 60,
       item_timeline_days = Some 45, item_impact = Some ''Delay''\<rparr>,
      \<lparr>item_risk_id = Some ''R-B'', item_category = Some ''Production Delay'',
       item_priority = Some ''CRITICAL'', item_risk_score = Some 90,
       item_timeline_days = Some 45, item_impact = Some ''Delay''\<rparr>,
      \<lparr>item_risk_id = Some ''R-C'', item_category = Some ''Stock Shortage'',
       item_priority = Some ''MEDIUM'', item_risk_score = Some 60,
       item_timeline_days = Some 45, item_impact = Some ''Delay''\<rparr>,
      \<lparr>item_risk_id = Some ''R-D'', item_category = Some ''Demand Volatility'',
       item_priority = Some ''LOW'', item_risk_score = Some 40,
       item_timeline_days = Some 45, item_impact = Some ''Delay''\<rparr>] 50 =
     [\<lparr>item_risk_id = Some ''R-B'', item_category = Some ''Production Delay'',
       item_priority = Some ''CRITICAL'', item_risk_score = Some 90,
       item_timeline_days = Some 45, item_impact = Some ''Delay''\<rparr>,
      \<lparr>item_risk_id = Some ''R-A'', item_category = Some ''Supplier Delay'',
       item_priority = Some ''MEDIUM'', item_risk_score = Some 60,
       item_timeline_days = Some 45, item_impact = Some ''Delay''\<rparr>,
      \<lparr>item_risk_id = Some ''R-C'', item_category = Some ''Stock Shortage'',
       item_priority = Some ''MEDIUM'', item_risk_score = Some 60,
       item_timeline_days = Some 45, item_impact = Some ''Delay''\<rparr>]"
  using aggregate_risks_filtered_sorted_stable
    [of "[\<lparr>item_risk_id = Some ''R-A'', item_category = Some ''Supplier Delay'',
           item_priority = Some ''MEDIUM'', item_risk_score = Some 60,
           item_timeline_days = Some 45, item_impact = Some ''Delay''\<rparr>,
          \<lparr>item_risk_id = Some ''R-B'', item_category = Some ''Production Delay'',
           item_priority = Some ''CRITICAL'', item_risk_score = Some 90,
           item_timeline_days = Some 45, item_impact = Some ''Delay''\<rparr>,
          \<lparr>item_risk_id = Some ''R-C'', item_category = Some ''Stock Shortage'',
           item_priority = Some ''MEDIUM'', item_risk_score = Some 60,
           item_timeline_days = Some 45, item_impact = Some ''Delay''\<rparr>,
          \<lparr>item_risk_id = Some ''R-D'', item_category = Some ''Demand Volatility'',
           item_priority = Some ''LOW'', item_risk_score = Some 40,
           item_timeline_days = Some 45, item_impact = Some ''Delay''\<rparr>]" 50]
  by (simp add: aggregate_risks_def sort_reverse_def get_risk_score_def)

text \<open>
  Claim C6. For thresholds \<open>T1 > T2\<close> and every list of risks, every risk that
  \<open>aggregate_risks\<close> returns for \<open>T1\<close> is also returned for \<open>T2\<close>, with at least the same
  multiplicity.
\<close>

theorem aggregate_risks_threshold_subset:
  assumes "T2 < T1"
  shows "set (aggregate_risks risks T1) \<subseteq> set (aggregate_risks risks T2) \<and>
         mset (aggregate_risks risks T1) \<subseteq># mset (aggregate_risks risks T2)"
proof
  show "set (aggregate_risks risks T1) \<subseteq> set (aggregate_risks risks T2)"
    using assms by (auto simp: aggregate_risks_def set_sort_reverse)
  have "filter_mset (\<lambda>r. T1 \<le> get_risk_score r) (mset risks)
          \<subseteq># filter_mset (\<lambda>r. T2 \<le> get_risk_score r) (mset risks)"
    using assms by (intro filter_mset_mono_strong) auto
  then show "mset (aggregate_risks risks T1) \<subseteq># mset (aggregate_risks risks T2)"
    by (simp add: aggregate_risks_def mset_sort_reverse)
qed

theorem aggregate_risks_threshold_subset_witness:
  "(50::real) < 80 \<and>
   aggregate_risks
     [\<lparr>item_risk_id = Some ''R-A'', item_category = Some ''Supplier Delay'',
       item_priority = Some ''MEDIUM'', item_risk_score = Some 60,
       item_timeline_days = Some 45, item_impact = Some ''Delay''\<rparr>,
      \<lparr>item_risk_id = Some ''R-B'', item_category = Some ''Production Delay'',
       item_priority = Some ''CRITICAL'', item_risk_score = Some 90,
       item_timeline_days = Some 45, item_impact = Some ''Delay''\<rparr>,
      \<lparr>item_risk_id = Some ''R-C'', item_category = Some ''Stock Shortage'',
       item_priority = Some ''MEDIUM'', item_risk_score = Some 60,
       item_timeline_days = Some 45, item_impact = Some ''Delay''\<rparr>,
      \<lparr>item_risk_id = Some ''R-D'', item_category = Some ''Demand Volatility'',
       item_priority = Some ''LOW'', item_risk_score = Some 40,
       item_timeline_days = Some 45, item_impact = Some ''Delay''\<rparr>] 80 =
     [\<lparr>item_risk_id = Some ''R-B'', item_category = Some ''Production Delay'',
       item_priority = Some ''CRITICAL'', item_risk_score = Some 90,
       item_timeline_days = Some 45, item_impact = Some ''Delay''\<rparr>] \<and>
   aggregate_risks
     [\<lparr>item_risk_id = Some ''R-A'', item_category = Some ''Supplier Delay'',
       item_priority = Some ''MEDIUM'', item_risk_score = Some 60,
       item_timeline_days = Some 45, item_impact = Some ''Delay''\<rparr>,
      \<lparr>item_risk_id = Some ''R-B'', item_category = Some ''Production Delay'',
       item_priority = Some ''CRITICAL'', item_risk_score = Some 90,
       item_timeline_days = Some 45, item_impact = Some ''Delay''\<rparr>,
      \<lparr>item_risk_id = Some ''R-C'', item_category = Some ''Stock Shortage'',
       item_priority = Some ''MEDIUM'', item_risk_score = Some 60,
       item_timeline_days = Some 45, item_impact = Some ''Delay''\<rparr>,
      \<lparr>item_risk_id = Some ''R-D'', item_category = Some ''Demand Volatility'',
       item_priority = Some ''LOW'', item_risk_score = Some 40,
       item_timeline_days = Some 45, item_impact = Some ''Delay''\<rparr>] 50 =
     [\<lparr>item_risk_id = Some ''R-B'', item_category = Some ''Production Delay'',
       item_priority = Some ''CRITICAL'', item_risk_score = Some 90,
       item_timeline_days = Some 45, item_impact = Some ''Delay''\<rparr>,
      \<lparr>item_risk_id = Some ''R-A'', item_category = Some ''Supplier Delay'',
       item_priority = Some ''MEDIUM'', item_risk_score = Some 60,
       item_timeline_days = Some 45, item_impact = Some ''Delay''\<rparr>,
      \<lparr>item_risk_id = Some ''R-C'', item_category = Some ''Stock Shortage'',
       item_priority = Some ''MEDIUM'', item_risk_score = Some 60,
       item_timeline_days = Some 45, item_impact = Some ''Delay''\<rparr>]"
  using aggregate_risks_threshold_subset
    [of 50 80 "[\<lparr>item_risk_id = Some ''R-A'', item_category = Some ''Supplier Delay'',
           item_priority = Some ''MEDIUM'', item_risk_score = Some 60,
           item_timeline_days = Some 45, item_impact = Some ''Delay''\<rparr>,
          \<lparr>item_risk_id = Some ''R-B'', item_category = Some ''Production Delay'',
           item_priority = Some ''CRITICAL'', item_risk_score = Some 90,
           item_timeline_days = Some 45, item_impact = Some ''Delay''\<rparr>,
          \<lparr>item_risk_id = Some ''R-C'', item_category = Some ''Stock Shortage'',
           item_priority = Some ''MEDIUM'', item_risk_score = Some 60,
           item_timeline_days = Some 45, item_impact = Some ''Delay''\<rparr>,
          \<lparr>item_risk_id = Some ''R-D'', item_category = Some ''Demand Volatility'',
           item_priority = Some ''LOW'', item_risk_score = Some 40,
           item_timeline_days = Some 45, item_impact = Some ''Delay''\<rparr>]"]
  by (simp add: aggregate_risks_def sort_reverse_def get_risk_score_def)

text \<open>
  Claim C7, as amended. The claim says that the external-factor score function raises an
  error on an unknown factor type. The function has no \<^verbatim>\<open>raise\<close> and its
  \<^verbatim>\<open>if\<close>/\<^verbatim>\<open>elif\<close> chain has no final \<^verbatim>\<open>else\<close>: for a factor type that is not one of
  the five recognised ones it returns the non-detected result (score 0, priority LOW), for
  every forecasted value, historical value and timeline.
\<close>

theorem external_unknown_factor_not_detected:
  assumes "factor_type \<notin> {''weather_severity_index'', ''tariff_rate'', ''port_congestion_index'',
                            ''fuel_price_usd'', ''geopolitical_risk_index''}"
  shows "calculate_external_factor_risk_score factor_type forecasted_value historical_value t
           = Inr not_detected"
  using assms
  by (simp add: calculate_external_factor_risk_score_def external_factor_gate_def)

theorem external_unknown_factor_not_detected_witness:
  "''humidity_index'' \<notin> {''weather_severity_index'', ''tariff_rate'', ''port_congestion_index'',
                           ''fuel_price_usd'', ''geopolitical_risk_index''} \<and>
   calculate_external_factor_risk_score ''humidity_index'' 95 40 45 = Inr not_detected"
  using external_unknown_factor_not_detected [of "''humidity_index''" 95 40 45] by simp

text \<open>
  The claim as stated fails: on the factor type \<open>solar_flare_index\<close> the function returns
  a result, not an error.
\<close>

theorem external_unknown_factor_counterexample:
  "calculate_external_factor_risk_score ''solar_flare_index'' 100 1 30 =
     Inr \<lparr>risk_detected = False, risk_score = 0, priority = ''LOW'', probability = 0,
          impact_severity = 0, urgency = None, details = []\<rparr>"
  by (simp add: calculate_external_factor_risk_score_def external_factor_gate_def
      not_detected_def)

text \<open>
  Claim C8. The loop of \<open>generate_recommendations\<close> puts every risk into exactly one bucket:
  immediate when its priority is CRITICAL or its timeline is at most 7 days, else short-term
  when its priority is HIGH or its timeline is at most 21 days, else long-term; one
  recommendation record per risk, in input order. The three buckets together hold as many
  records as there are risks. The result keeps the first 5 records of each bucket, so no
  bucket is longer than 5.
\<close>

theorem generate_recommendations_buckets:
  "(let imm = (\<lambda>r. get_priority r = ''CRITICAL'' \<or> get_timeline_days r \<le> 7);
        sht = (\<lambda>r. \<not> imm r \<and> (get_priority r = ''HIGH'' \<or> get_timeline_days r \<le> 21));
        lng = (\<lambda>r. \<not> imm r \<and> \<not> (get_priority r = ''HIGH'' \<or> get_timeline_days r \<le> 21))
    in bucket_risks risks =
         \<lparr>immediate_actions = map immediate_action (filter imm risks),
          short_term_actions = map short_term_action (filter sht risks),
          long_term_actions = map long_term_action (filter lng risks)\<rparr> \<and>
       length (filter imm risks) + length (filter sht risks) + length (filter lng risks)
         = length risks \<and>
       generate_recommendations risks =
         \<lparr>immediate_actions = take 5 (map immediate_action (filter imm risks)),
          short_term_actions = take 5 (map short_term_action (filter sht risks)),
          long_term_actions = take 5 (map long_term_action (filter lng risks))\<rparr> \<and>
       length (immediate_actions (generate_recommendations risks)) \<le> 5 \<and>
       length (short_term_actions (generate_recommendations risks)) \<le> 5 \<and>
       length (long_term_actions (generate_recommendations risks)) \<le> 5)"
  using three_way_split [of "\<lambda>r. get_priority r = ''CRITICAL'' \<or> get_timeline_days r \<le> 7" risks
      "\<lambda>r. get_priority r = ''HIGH'' \<or> get_timeline_days r \<le> 21"]
  by (simp add: Let_def bucket_risks_def generate_recommendations_def foldl_recommend_step)

theorem generate_recommendations_buckets_witness:
  "generate_recommendations
     [\<lparr>item_risk_id = Some ''R-1'', item_category = Some ''Supplier Delay'',
       item_priority = Some ''CRITICAL'', item_risk_score = Some 95,
       item_timeline_days = Some 30, item_impact = Some ''Delay''\<rparr>,
      \<lparr>item_risk_id = Some ''R-2'', item_category = Some ''Stock Shortage'',
       item_priority = Some ''LOW'', item_risk_score = Some 52,
       item_timeline_days = Some 5, item_impact = Some ''Delay''\<rparr>,
      \<lparr>item_risk_id = Some ''R-3'', item_category = Some ''Production Delay'',
       item_priority = Some ''HIGH'', item_risk_score = Some 75,
       item_timeline_days = Some 30, item_impact = Some ''Delay''\<rparr>,
      \<lparr>item_risk_id = Some ''R-4'', item_category = Some ''Demand Volatility'',
       item_priority = Some ''MEDIUM'', item_risk_score = Some 55,
       item_timeline_days = Some 45, item_impact = Some ''Delay''\<rparr>,
      \<lparr>item_risk_id = Some ''R-5'', item_category = Some ''Transportation Delay'',
       item_priority = Some ''MEDIUM'', item_risk_score = Some 58,
       item_timeline_days = Some 21, item_impact = Some ''Delay''\<rparr>] =
    \<lparr>immediate_actions =
       [\<lparr>action = ''Address Supplier Delay: Delay'', rec_priority = ''CRITICAL'',
         related_risks = [Some ''R-1'']\<rparr>,
        \<lparr>action = ''Address Stock Shortage: Delay'', rec_priority = ''LOW'',
         related_risks = [Some ''R-2'']\<rparr>],
     short_term_actions =
       [\<lparr>action = ''Monitor and plan for Production Delay'', rec_priority = ''HIGH'',
         related_risks = [Some ''R-3'']\<rparr>,
        \<lparr>action = ''Monitor and plan for Transportation Delay'', rec_priority = ''MEDIUM'',
         related_risks = [Some ''R-5'']\<rparr>],
     long_term_actions =
       [\<lparr>action = ''Prepare contingency for Demand Volatility'', rec_priority = ''MEDIUM'',
         related_risks = [Some ''R-4'']\<rparr>]\<rparr> \<and>
   length (immediate_actions (generate_recommendations (replicate 7
      (\<lparr>item_risk_id = Some ''R-1'', item_category = Some ''Supplier Delay'',
        item_priority = Some ''CRITICAL'', item_risk_score = Some 95,
        item_timeline_days = Some 30, item_impact = Some ''Delay''\<rparr>)))) = 5"
proof (rule conjI)
  show "generate_recommendations
     [\<lparr>item_risk_id = Some ''R-1'', item_category = Some ''Supplier Delay'',
       item_priority = Some ''CRITICAL'', item_risk_score = Some 95,
       item_timeline_days = Some 30, item_impact = Some ''Delay''\<rparr>,
      \<lparr>item_risk_id = Some ''R-2'', item_category = Some ''Stock Shortage'',
       item_priority = Some ''LOW'', item_risk_score = Some 52,
       item_timeline_days = Some 5, item_impact = Some ''Delay''\<rparr>,
      \<lparr>item_risk_id = Some ''R-3'', item_category = Some ''Production Delay'',
       item_priority = Some ''HIGH'', item_risk_score = Some 75,
       item_timeline_days = Some 30, item_impact = Some ''Delay''\<rparr>,
      \<lparr>item_risk_id = Some ''R-4'', item_category = Some ''Demand Volatility'',
       item_priority = Some ''MEDIUM'', item_risk_score = Some 55,
       item_timeline_days = Some 45, item_impact = Some ''Delay''\<rparr>,
      \<lparr>item_risk_id = Some ''R-5'', item_category = Some ''Transportation Delay'',
       item_priority = Some ''MEDIUM'', item_risk_score = Some 58,
       item_timeline_days = Some 21, item_impact = Some ''Delay''\<rparr>] =
    \<lparr>immediate_actions =
       [\<lparr>action = ''Address Supplier Delay: Delay'', rec_priority = ''CRITICAL'',
         related_risks = [Some ''R-1'']\<rparr>,
        \<lparr>action = ''Address Stock Shortage: Delay'', rec_priority = ''LOW'',
         related_risks = [Some ''R-2'']\<rparr>],
     short_term_actions =
       [\<lparr>action = ''Monitor and plan for Production Delay'', rec_priority = ''HIGH'',
         related_risks = [Some ''R-3'']\<rparr>,
        \<lparr>action = ''Monitor and plan for Transportation Delay'', rec_priority = ''MEDIUM'',
         related_risks = [Some ''R-5'']\<rparr>],
     long_term_actions =
       [\<lparr>action = ''Prepare contingency for Demand Volatility'', rec_priority = ''MEDIUM'',
         related_risks = [Some ''R-4'']\<rparr>]\<rparr>"
    using generate_recommendations_buckets
      [of "[\<lparr>item_risk_id = Some ''R-1'', item_category = Some ''Supplier Delay'',
             item_priority = Some ''CRITICAL'', item_risk_score = Some 95,
             item_timeline_days = Some 30, item_impact = Some ''Delay''\<rparr>,
            \<lparr>item_risk_id = Some ''R-2'', item_category = Some ''Stock Shortage'',
             item_priority = Some ''LOW'', item_risk_score = Some 52,
             item_timeline_days = Some 5, item_impact = Some ''Delay''\<rparr>,
            \<lparr>item_risk_id = Some ''R-3'', item_category = Some ''Production Delay'',
             item_priority = Some ''HIGH'', item_risk_score = Some 75,
             item_timeline_days = Some 30, item_impact = Some ''Delay''\<rparr>,
            \<lparr>item_risk_id = Some ''R-4'', item_category = Some ''Demand Volatility'',
             item_priority = Some ''MEDIUM'', item_risk_score = Some 55,
             item_timeline_days = Some 45, item_impact = Some ''Delay''\<rparr>,
            \<lparr>item_risk_id = Some ''R-5'', item_category = Some ''Transportation Delay'',
             item_priority = Some ''MEDIUM'', item_risk_score = Some 58,
             item_timeline_days = Some 21, item_impact = Some ''Delay''\<rparr>]"]
    by (simp add: Let_def immediate_action_def short_term_action_def long_term_action_def
        get_priority_def get_timeline_days_def get_category_def get_impact_def)
  show "length (immediate_actions (generate_recommendations (replicate 7
      (\<lparr>item_risk_id = Some ''R-1'', item_category = Some ''Supplier Delay'',
        item_priority = Some ''CRITICAL'', item_risk_score = Some 95,
        item_timeline_days = Some 30, item_impact = Some ''Delay''\<rparr>)))) = 5"
    using generate_recommendations_buckets
      [of "replicate 7 (\<lparr>item_risk_id = Some ''R-1'', item_category = Some ''Supplier Delay'',
          item_priority = Some ''CRITICAL'', item_risk_score = Some 95,
          item_timeline_days = Some 30, item_impact = Some ''Delay''\<rparr>)"]
    by (simp add: Let_def get_priority_def)
qed

text \<open>
  Claim C9. The fallback mitigation generator reads only the category and the priority of a
  risk: two risks that agree on both get the same strategy list. The cost of each strategy
  is the cost in the table at multiplier 1 times the multiplier of the priority (CRITICAL 2.0,
  HIGH 1.5, MEDIUM 1.0, LOW 0.5), and no other field depends on the priority.
\<close>

theorem fallback_mitigations_deterministic:
  assumes "item_category r1 = item_category r2" and "item_priority r1 = item_priority r2"
  shows "generate_fallback_mitigations r1 = generate_fallback_mitigations r2 \<and>
         map estimated_cost (generate_fallback_mitigations r1) =
           map (\<lambda>s. estimated_cost s * cost_multiplier_of (get_priority r1))
             (fallback_strategies (get_category r1) 1) \<and>
         map (\<lambda>s. s\<lparr>estimated_cost := 0\<rparr>) (generate_fallback_mitigations r1) =
           map (\<lambda>s. s\<lparr>estimated_cost := 0\<rparr>) (fallback_strategies (get_category r1) 1) \<and>
         cost_multiplier_of ''CRITICAL'' = 2.0 \<and> cost_multiplier_of ''HIGH'' = 1.5 \<and>
         cost_multiplier_of ''MEDIUM'' = 1.0 \<and> cost_multiplier_of ''LOW'' = 0.5"
proof -
  have "generate_fallback_mitigations r1 = generate_fallback_mitigations r2"
    using assms
    by (simp add: generate_fallback_mitigations_def get_category_def get_priority_def)
  moreover note fallback_costs_scaled [of "get_category r1" "cost_multiplier_of (get_priority r1)"]
    fallback_other_fields [of "get_category r1" "cost_multiplier_of (get_priority r1)"]
    cost_multiplier_table
  ultimately show ?thesis
    by (simp add: generate_fallback_mitigations_def Let_def)
qed

theorem fallback_mitigations_deterministic_witness:
  "generate_fallback_mitigations
     \<lparr>item_risk_id = Some ''R-0A1B2C3D'', item_category = Some ''Supplier Delay'',
      item_priority = Some ''CRITICAL'', item_risk_score = Some 95,
      item_timeline_days = Some 45, item_impact = Some ''Late delivery''\<rparr> =
   generate_fallback_mitigations
     \<lparr>item_risk_id = Some ''R-FFFFFFFF'', item_category = Some ''Supplier Delay'',
      item_priority = Some ''CRITICAL'', item_risk_score = Some 91.5,
      item_timeline_days = Some 30, item_impact = None\<rparr> \<and>
   map estimated_cost (generate_fallback_mitigations
     \<lparr>item_risk_id = Some ''R-0A1B2C3D'', item_category = Some ''Supplier Delay'',
      item_priority = Some ''CRITICAL'', item_risk_score = Some 95,
      item_timeline_days = Some 45, item_impact = Some ''Late delivery''\<rparr>)
     = [90000, 150000, 30000]"
  using fallback_mitigations_deterministic
    [of "\<lparr>item_risk_id = Some ''R-0A1B2C3D'', item_category = Some ''Supplier Delay'',
      item_priority = Some ''CRITICAL'', item_risk_score = Some 95,
      item_timeline_days = Some 45, item_impact = Some ''Late delivery''\<rparr>"
     "\<lparr>item_risk_id = Some ''R-FFFFFFFF'', item_category = Some ''Supplier Delay'',
      item_priority = Some ''CRITICAL'', item_risk_score = Some 91.5,
      item_timeline_days = Some 30, item_impact = None\<rparr>"]
  by (simp add: generate_fallback_mitigations_def Let_def get_category_def get_priority_def
      fallback_strategies_def sublist_code cost_multiplier_table)

text \<open>
  Claim C10. On every four real arguments the composite score function returns a score and
  raises nothing: it clamps impact severity to \<open>[0,100]\<close>, probability to \<open>[0,1]\<close>, urgency to
  \<open>[0,100]\<close> and mitigation readiness to \<open>[0.1,1.0]\<close>, so that the divisor is at least
  \<open>0.1\<close>, and the score is in \<open>[0,100]\<close>.
\<close>

theorem composite_score_total:
  "\<exists>s. calculate_composite_score i p u m = Inr s \<and> 0 \<le> s \<and> s \<le> 100 \<and>
        s = clamp ((clamp i 0 100 * 0.4 + clamp p 0 1 * 100 * 0.3 + clamp u 0 100 * 0.3)
                     / clamp m 0.1 1.0) 0 100 \<and>
        0 \<le> clamp i 0 100 \<and> clamp i 0 100 \<le> 100 \<and>
        0 \<le> clamp p 0 1 \<and> clamp p 0 1 \<le> 1 \<and>
        0 \<le> clamp u 0 100 \<and> clamp u 0 100 \<le> 100 \<and>
        0.1 \<le> clamp m 0.1 1.0 \<and> clamp m 0.1 1.0 \<le> 1.0"
  using clamp_bounds [of 0 100] clamp_bounds [of 0 1] clamp_bounds [of "0.1" "1.0"]
  by (simp add: calculate_composite_score_eq)

theorem composite_score_total_witness:
  "calculate_composite_score 250 (-3) 1000 0 = Inr 100 \<and>
   calculate_composite_score 40 0.5 10 (-2) = Inr 100 \<and>
   calculate_composite_score (-5) (-1) (-7) 0 = Inr 0 \<and>
   calculate_composite_score 10 0.1 10 7 = Inr 10"
  using composite_score_total [of 250 "-3" 1000 0]
  by (simp add: calculate_composite_score_eq clamp_def)

end
